theory Spec2Isabelle
  imports Complex_Main "HOL-Library.Word"
begin

section \<open>Touch user interface: the embedded code\<close>

text \<open>
  The definitions follow the library source \<open>TouchUserInterfaceForArduino.cpp\<close> function
  by function and keep its names. The members of the C++ class that a function reads
  or writes are fields of a record that the function takes and returns; what a function
  draws on the LCD is returned as a list of drawing commands. An \<open>int\<close> that only holds
  a screen coordinate or a size is a HOL integer; the millisecond clock and the value of
  a number box are 32-bit words, and wrap as on the 32-bit processors the library is
  written for.
\<close>

subsection \<open>Touch events\<close>

text \<open>The event constants \<open>TOUCH_NO_EVENT = 0\<close> .. \<open>TOUCH_REPEAT_EVENT = 3\<close> of the header.\<close>

datatype touch_event_type =
  TOUCH_NO_EVENT | TOUCH_PUSHED_EVENT | TOUCH_RELEASED_EVENT | TOUCH_REPEAT_EVENT

text \<open>The values of \<open>touchState\<close>.\<close>

datatype touch_state =
  WAITING_FOR_TOUCH_DOWN_STATE
  | CONFIRM_TOUCH_DOWN_STATE
  | WAITING_FOR_TOUCH_UP_STATE
  | WAITING_FOR_TOUCH_UP_AFTER_AUTO_REPEAT_STATE
  | CONFIRM_TOUCH_UP_STATE

text \<open>
  The state of \<open>getTouchEvents\<close>: the member \<open>touchState\<close>, the function's static locals
  \<open>touchEventStartTime\<close> (an \<open>unsigned long\<close>), \<open>recordedTouchX\<close> and \<open>recordedTouchY\<close>, and
  the members \<open>touchEventType\<close>, \<open>touchEventX\<close>, \<open>touchEventY\<close> that hold the most recent
  event for the widgets to read.
\<close>

record touch_channel =
  touchState :: touch_state
  touchEventStartTime :: "32 word"
  recordedTouchX :: int
  recordedTouchY :: int
  touchEventType :: touch_event_type
  touchEventX :: int
  touchEventY :: int

text \<open>
  What \<open>getTouchScreenCoords\<close> reads from the touch controller at one poll: \<open>None\<close> when
  the screen is not touched, else the LCD coordinates of the touch.
\<close>

type_synonym touch_sample = "(int \<times> int) option"

text \<open>
  The delay periods in milliseconds. They are \<open>const long\<close> and are added to the
  \<open>unsigned long\<close> timer, so the sums are taken modulo \<open>2 ^ 32\<close>.
\<close>

definition TOUCH_DEBOUNCE_PERIOD :: "32 word" where
  "TOUCH_DEBOUNCE_PERIOD = 30"

definition TOUCH_AUTO_REPEAT_DELAY :: "32 word" where
  "TOUCH_AUTO_REPEAT_DELAY = 800"

definition TOUCH_AUTO_REPEAT_RATE :: "32 word" where
  "TOUCH_AUTO_REPEAT_RATE = 120"

text \<open>
  The channel after \<open>begin\<close>: \<open>touchScreenSetOrientation\<close> has set the state to waiting
  for a touch, the static locals and the members of the global object start at zero.
\<close>

definition touch_begin :: touch_channel where
  "touch_begin = \<lparr> touchState = WAITING_FOR_TOUCH_DOWN_STATE, touchEventStartTime = 0,
     recordedTouchX = 0, recordedTouchY = 0,
     touchEventType = TOUCH_NO_EVENT, touchEventX = 0, touchEventY = 0 \<rparr>"

text \<open>
  \<open>getTouchEvents\<close>. \<open>currentTime\<close> is the value \<open>millis()\<close> returns at the poll and
  \<open>smp\<close> the sample the poll takes. The function first assumes that there is no event,
  then switches on the state. The comparisons are those of the source, on unsigned
  32-bit numbers. Leaving the two waiting-for-touch-up states on a released sample does
  not restart the timer.
\<close>

definition getTouchEvents :: "32 word \<Rightarrow> touch_sample \<Rightarrow> touch_channel \<Rightarrow> touch_channel" where
  "getTouchEvents currentTime smp s0 =
    (let s = s0\<lparr> touchEventType := TOUCH_NO_EVENT \<rparr> in
     case touchState s of
       WAITING_FOR_TOUCH_DOWN_STATE \<Rightarrow>
         (case smp of
            Some _ \<Rightarrow> s\<lparr> touchState := CONFIRM_TOUCH_DOWN_STATE, touchEventStartTime := currentTime \<rparr>
          | None \<Rightarrow> s)
     | CONFIRM_TOUCH_DOWN_STATE \<Rightarrow>
         if currentTime < touchEventStartTime s + TOUCH_DEBOUNCE_PERIOD then s
         else (case smp of
                 None \<Rightarrow> s\<lparr> touchState := WAITING_FOR_TOUCH_DOWN_STATE \<rparr>
               | Some (currentTouchX, currentTouchY) \<Rightarrow>
                   s\<lparr> recordedTouchX := currentTouchX, recordedTouchY := currentTouchY,
                      touchEventStartTime := currentTime,
                      touchState := WAITING_FOR_TOUCH_UP_STATE,
                      touchEventX := currentTouchX, touchEventY := currentTouchY,
                      touchEventType := TOUCH_PUSHED_EVENT \<rparr>)
     | WAITING_FOR_TOUCH_UP_STATE \<Rightarrow>
         (case smp of
            None \<Rightarrow> s\<lparr> touchState := CONFIRM_TOUCH_UP_STATE \<rparr>
          | Some _ \<Rightarrow>
              if currentTime < touchEventStartTime s + TOUCH_AUTO_REPEAT_DELAY then s
              else s\<lparr> touchEventStartTime := currentTime,
                      touchState := WAITING_FOR_TOUCH_UP_AFTER_AUTO_REPEAT_STATE,
                      touchEventX := recordedTouchX s, touchEventY := recordedTouchY s,
                      touchEventType := TOUCH_REPEAT_EVENT \<rparr>)
     | WAITING_FOR_TOUCH_UP_AFTER_AUTO_REPEAT_STATE \<Rightarrow>
         (case smp of
            None \<Rightarrow> s\<lparr> touchState := CONFIRM_TOUCH_UP_STATE \<rparr>
          | Some _ \<Rightarrow>
              if currentTime < touchEventStartTime s + TOUCH_AUTO_REPEAT_RATE then s
              else s\<lparr> touchEventStartTime := currentTime,
                      touchEventX := recordedTouchX s, touchEventY := recordedTouchY s,
                      touchEventType := TOUCH_REPEAT_EVENT \<rparr>)
     | CONFIRM_TOUCH_UP_STATE \<Rightarrow>
         (case smp of
            Some _ \<Rightarrow> s\<lparr> touchEventStartTime := currentTime \<rparr>
          | None \<Rightarrow>
              if currentTime < touchEventStartTime s + TOUCH_DEBOUNCE_PERIOD then s
              else s\<lparr> touchState := WAITING_FOR_TOUCH_DOWN_STATE,
                      touchEventX := recordedTouchX s, touchEventY := recordedTouchY s,
                      touchEventType := TOUCH_RELEASED_EVENT \<rparr>))"


subsection \<open>Runs of polls\<close>

text \<open>
  A loop that calls \<open>getTouchEvents\<close> once per pass: one poll per element, each with its
  clock reading and its sample. \<open>pollAll\<close> lists the channel as it stands after each
  poll, so element \<open>k\<close> holds the event that the widgets see on poll \<open>k\<close>; \<open>pollEnd\<close> is
  the channel after the last poll.
\<close>

fun pollAll :: "touch_channel \<Rightarrow> (32 word \<times> touch_sample) list \<Rightarrow> touch_channel list" where
  "pollAll s [] = []"
| "pollAll s ((now, smp) # ps) = getTouchEvents now smp s # pollAll (getTouchEvents now smp s) ps"

definition pollEnd :: "touch_channel \<Rightarrow> (32 word \<times> touch_sample) list \<Rightarrow> touch_channel" where
  "pollEnd s ps = last (s # pollAll s ps)"

definition eventCount :: "touch_event_type \<Rightarrow> touch_channel list \<Rightarrow> nat" where
  "eventCount k ss = length (filter (\<lambda>s. touchEventType s = k) ss)"

definition eventOf :: "touch_channel \<Rightarrow> touch_event_type \<times> int \<times> int" where
  "eventOf s = (touchEventType s, touchEventX s, touchEventY s)"

text \<open>
  \<open>frozenCoords cur rows\<close> walks the polls of a run (sample taken, channel after the
  poll). \<open>cur\<close> holds the coordinates of the Pressed event of the cycle in progress,
  \<open>None\<close> outside a cycle. A Pressed event must carry the sample of its own poll;
  an AutoRepeat or Released event must carry the coordinates of the cycle's Pressed
  event, and can only occur inside a cycle.
\<close>

fun frozenCoords :: "(int \<times> int) option \<Rightarrow> (touch_sample \<times> touch_channel) list \<Rightarrow> bool" where
  "frozenCoords cur [] = True"
| "frozenCoords cur ((smp, s) # rows) =
     (case touchEventType s of
        TOUCH_NO_EVENT \<Rightarrow> frozenCoords cur rows
      | TOUCH_PUSHED_EVENT \<Rightarrow>
          smp = Some (touchEventX s, touchEventY s) \<and>
          frozenCoords (Some (touchEventX s, touchEventY s)) rows
      | TOUCH_REPEAT_EVENT \<Rightarrow>
          cur = Some (touchEventX s, touchEventY s) \<and> frozenCoords cur rows
      | TOUCH_RELEASED_EVENT \<Rightarrow>
          cur = Some (touchEventX s, touchEventY s) \<and> frozenCoords None rows)"

text \<open>The recorded coordinates once a press has been confirmed, \<open>None\<close> before.\<close>

definition cycleCoords :: "touch_channel \<Rightarrow> (int \<times> int) option" where
  "cycleCoords s =
     (case touchState s of
        WAITING_FOR_TOUCH_DOWN_STATE \<Rightarrow> None
      | CONFIRM_TOUCH_DOWN_STATE \<Rightarrow> None
      | _ \<Rightarrow> Some (recordedTouchX s, recordedTouchY s))"

text \<open>A finger that drifts after pressing, held long enough to auto-repeat twice.\<close>

definition dragPolls :: "(32 word \<times> touch_sample) list" where
  "dragPolls =
     [(0, Some (100, 50)), (10, Some (101, 50)), (30, Some (104, 52)), (40, Some (120, 60)),
      (830, Some (200, 90)), (950, Some (230, 95)), (960, None), (990, None)]"










text \<open>
  Touched polls at clocks \<open>t0, t0 + 1, .., t0 + n\<close>, with any coordinates \<open>f k\<close>:
  a touch held for \<open>n\<close> ms and polled every millisecond. \<open>steadyInv\<close> states where the
  machine stands after such a run and how many AutoRepeat events \<open>c\<close> it has emitted.
\<close>

definition steadyPolls :: "nat \<Rightarrow> nat \<Rightarrow> (nat \<Rightarrow> int \<times> int) \<Rightarrow> (32 word \<times> touch_sample) list" where
  "steadyPolls t0 n f = map (\<lambda>k. (of_nat (t0 + k), Some (f k))) [0..<Suc n]"

definition steadyInv :: "nat \<Rightarrow> nat \<Rightarrow> touch_channel \<Rightarrow> nat \<Rightarrow> bool" where
  "steadyInv t0 n e c =
     (if n < 30 then touchState e = CONFIRM_TOUCH_DOWN_STATE \<and> touchEventStartTime e = of_nat t0 \<and> c = 0
      else if n < 830
      then touchState e = WAITING_FOR_TOUCH_UP_STATE \<and> touchEventStartTime e = of_nat (t0 + 30) \<and> c = 0
      else touchState e = WAITING_FOR_TOUCH_UP_AFTER_AUTO_REPEAT_STATE \<and>
           touchEventStartTime e = of_nat (t0 + 830 + 120 * ((n - 830) div 120)) \<and>
           c = (n - 830) div 120 + 1)"

text \<open>Touched polls every 10 ms from clock 0.\<close>

definition tenMsPolls :: "nat \<Rightarrow> (32 word \<times> touch_sample) list" where
  "tenMsPolls n = map (\<lambda>k. (of_nat (10 * k), Some (100, 50))) [0..<n]"

text \<open>
  A touch that starts one second before the 32-bit clock rolls over, polled every 10 ms
  until 10 ms before the rollover.
\<close>

definition rolloverPolls :: "(32 word \<times> touch_sample) list" where
  "rolloverPolls = map (\<lambda>k. (4294966296 + 10 * of_nat k, Some (100, 50))) [0..<100]"

subsection \<open>C integer division\<close>


subsection \<open>Buttons\<close>







subsection \<open>The display space\<close>







subsection \<open>Menu tables\<close>









subsection \<open>The layout of a menu\<close>


















subsection \<open>The title bar\<close>

text \<open>The values of \<open>buttonTypeOnTitleBar\<close>.\<close>

datatype title_bar_button =
  TITLE_BAR_BUTTON_TYPE_NONE | TITLE_BAR_BUTTON_TYPE_BACK | TITLE_BAR_BUTTON_TYPE_MENU

text \<open>
  What the menu functions do to the screen and to the application, one entry per call,
  in the order of the calls: \<open>drawTitleBar(text, buttonType)\<close>, which also draws the Back
  button when the type asks for it; \<open>clearDisplaySpace()\<close>; \<open>drawButton\<close> for a menu
  button with its text, its highlight flag and its rectangle \<open>(x, y, width, height)\<close>;
  \<open>drawTitleBarBackButton(selected)\<close>; a call of a table row's function, with the value
  of \<open>toggleSelectNextStateFlg\<close> that it finds; a call of the in-menu callback.
  The functions of the application are numbered. What such a function does is not part
  of the library; it is taken to leave the members of the user interface object as
  they are.
\<close>

datatype menu_action =
    DrawTitleBar string title_bar_button
  | ClearDisplaySpace
  | DrawMenuButton string bool "int \<times> int \<times> int \<times> int"
  | DrawTitleBarBackButton bool
  | CallFunction nat bool
  | InMenuCallback nat

text \<open>
  The members of the user interface object that the menu functions read and write, and
  the list \<open>lcd\<close> of what has been done so far.
\<close>

record menu_state =
  touch :: touch_channel
  currentMenuTable :: "nat option"
  buttonTypeOnTitleBar :: title_bar_button
  toggleSelectNextStateFlg :: bool
  inMenuCallbackFunction :: "nat option"
  lcd :: "menu_action list"






subsection \<open>The menu engine\<close>


















text \<open>The state of the pass after a click on the Back button.\<close>

definition afterBackClick :: "32 word \<times> touch_sample \<Rightarrow> menu_state \<Rightarrow> menu_state" where
  "afterBackClick poll st =
     st\<lparr> touch := getTouchEvents (fst poll) (snd poll) (touch st),
         lcd := lcd st @ [DrawTitleBarBackButton False] \<rparr>"


subsection \<open>The menu tables of the README\<close>














section \<open>Properties of the touch event state machine\<close>

lemma pollAll_append:
  "pollAll s (ps @ qs) = pollAll s ps @ pollAll (pollEnd s ps) qs"
  by (induction ps arbitrary: s) (auto simp: pollEnd_def)

lemma pollEnd_Nil: "pollEnd s [] = s"
  by (simp add: pollEnd_def)

lemma pollEnd_Cons: "pollEnd s ((now, smp) # ps) = pollEnd (getTouchEvents now smp s) ps"
  by (simp add: pollEnd_def)


lemma frozenCoords_step:
  "frozenCoords (cycleCoords s) ((smp, getTouchEvents now smp s) # rows) =
     frozenCoords (cycleCoords (getTouchEvents now smp s)) rows"
  by (cases "touchState s"; cases smp)
     (auto simp: getTouchEvents_def cycleCoords_def Let_def)

lemma frozenCoords_run:
  "frozenCoords (cycleCoords s) (zip (map snd ps) (pollAll s ps))"
proof (induction ps arbitrary: s)
  case Nil
  show ?case by simp
next
  case (Cons p ps)
  obtain now smp where p: "p = (now, smp)" by (cases p)
  have "frozenCoords (cycleCoords (getTouchEvents now smp s))
          (zip (map snd ps) (pollAll (getTouchEvents now smp s) ps))"
    by (rule Cons.IH)
  then show ?case
    unfolding p by (simp only: list.map snd_conv pollAll.simps zip_Cons_Cons frozenCoords_step)
qed

text \<open>
  Claim C2. In every run of polls from the channel as \<open>begin\<close> leaves it, whatever the
  clock readings and the raw samples are: a Pressed event carries the raw sample of the
  poll that confirms it (the end of the debounce interval), and every later AutoRepeat
  event and the Released event of the same touch-down cycle carry exactly those
  coordinates, also when the finger drifts after pressing.
\<close>

theorem C2_coordinates_frozen:
  "frozenCoords None (zip (map snd ps) (pollAll touch_begin ps))"
proof -
  have "cycleCoords touch_begin = None"
    by (simp add: cycleCoords_def touch_begin_def)
  with frozenCoords_run [of touch_begin ps] show ?thesis by simp
qed

lemmas tconsts = TOUCH_DEBOUNCE_PERIOD_def TOUCH_AUTO_REPEAT_DELAY_def TOUCH_AUTO_REPEAT_RATE_def

lemmas evals = touch_begin_def getTouchEvents_def Let_def eventOf_def tconsts

theorem C2_coordinates_frozen_witness:
  "frozenCoords None (zip (map snd dragPolls) (pollAll touch_begin dragPolls)) \<and>
   map eventOf (pollAll touch_begin dragPolls) =
     [(TOUCH_NO_EVENT, 0, 0), (TOUCH_NO_EVENT, 0, 0), (TOUCH_PUSHED_EVENT, 104, 52),
      (TOUCH_NO_EVENT, 104, 52), (TOUCH_REPEAT_EVENT, 104, 52), (TOUCH_REPEAT_EVENT, 104, 52),
      (TOUCH_NO_EVENT, 104, 52), (TOUCH_RELEASED_EVENT, 104, 52)]"
proof -
  have "map eventOf (pollAll touch_begin dragPolls) =
     [(TOUCH_NO_EVENT, 0, 0), (TOUCH_NO_EVENT, 0, 0), (TOUCH_PUSHED_EVENT, 104, 52),
      (TOUCH_NO_EVENT, 104, 52), (TOUCH_REPEAT_EVENT, 104, 52), (TOUCH_REPEAT_EVENT, 104, 52),
      (TOUCH_NO_EVENT, 104, 52), (TOUCH_RELEASED_EVENT, 104, 52)]"
    by (simp add: dragPolls_def evals)
  with C2_coordinates_frozen [of dragPolls] show ?thesis by simp
qed




lemmas tdefs = getTouchEvents_def Let_def






lemma pollEnd_append: "pollEnd s (ps @ qs) = pollEnd (pollEnd s ps) qs"
  by (induction ps arbitrary: s) (auto simp: pollEnd_Nil pollEnd_Cons)





























lemma steadyPolls_0: "steadyPolls t0 0 f = [(of_nat t0, Some (f 0))]"
  by (simp add: steadyPolls_def)

lemma steadyPolls_Suc:
  "steadyPolls t0 (Suc n) f = steadyPolls t0 n f @ [(of_nat (t0 + Suc n), Some (f (Suc n)))]"
  by (simp add: steadyPolls_def)

lemma pollAll_snoc:
  "pollAll s (ps @ [(now, smp)]) = pollAll s ps @ [getTouchEvents now smp (pollEnd s ps)]"
  by (simp add: pollAll_append)

lemma pollEnd_snoc:
  "pollEnd s (ps @ [(now, smp)]) = getTouchEvents now smp (pollEnd s ps)"
  by (simp add: pollEnd_append pollEnd_Cons pollEnd_Nil)

lemma eventCount_snoc:
  "eventCount k (ss @ [e]) = eventCount k ss + (if touchEventType e = k then 1 else 0)"
  by (simp add: eventCount_def)

lemma before_nat:
  "a < 4294967296 \<Longrightarrow> b + p < 4294967296 \<Longrightarrow>
   ((of_nat a :: 32 word) < of_nat b + of_nat p) = (a < b + p)"
proof -
  assume a: "a < 4294967296" and b: "b + p < 4294967296"
  have ua: "unat (of_nat a :: 32 word) = a"
    using a by (simp add: unat_of_nat)
  have "unat (of_nat (b + p) :: 32 word) = (b + p) mod 2 ^ LENGTH(32)"
    by (rule unat_of_nat)
  with b have "unat (of_nat (b + p) :: 32 word) = b + p" by simp
  then have ub: "unat ((of_nat b :: 32 word) + of_nat p) = b + p"
    by (simp only: of_nat_add)
  show ?thesis by (simp only: word_less_nat_alt ua ub)
qed

lemma before_consts:
  "a < 4294967296 \<Longrightarrow> b + 30 < 4294967296 \<Longrightarrow>
     ((of_nat a :: 32 word) < of_nat b + TOUCH_DEBOUNCE_PERIOD) = (a < b + 30)"
  "a < 4294967296 \<Longrightarrow> b + 800 < 4294967296 \<Longrightarrow>
     ((of_nat a :: 32 word) < of_nat b + TOUCH_AUTO_REPEAT_DELAY) = (a < b + 800)"
  "a < 4294967296 \<Longrightarrow> b + 120 < 4294967296 \<Longrightarrow>
     ((of_nat a :: 32 word) < of_nat b + TOUCH_AUTO_REPEAT_RATE) = (a < b + 120)"
  using before_nat [of a b 30] before_nat [of a b 800] before_nat [of a b 120]
  by (simp_all add: tconsts)

lemma steadyInv_late:
  "830 \<le> n \<Longrightarrow> touchState e = WAITING_FOR_TOUCH_UP_AFTER_AUTO_REPEAT_STATE \<Longrightarrow>
   touchEventStartTime e = of_nat (t0 + 830 + 120 * ((n - 830) div 120)) \<Longrightarrow>
   c = (n - 830) div 120 + 1 \<Longrightarrow>
   steadyInv t0 n e c"
  by (simp add: steadyInv_def)

lemma steadyInv_step:
  assumes inv: "steadyInv t0 n e c"
    and clock: "t0 + Suc n + 800 < 4294967296"
  shows "steadyInv t0 (Suc n) (getTouchEvents (of_nat (t0 + Suc n)) (Some xy) e)
     (c + (if touchEventType (getTouchEvents (of_nat (t0 + Suc n)) (Some xy) e) = TOUCH_REPEAT_EVENT
           then 1 else 0))"
proof -
  from clock have now: "t0 + Suc n < 4294967296" by simp
  consider "n < 29" | "n = 29" | "30 \<le> n" "n < 829" | "n = 829" | "830 \<le> n"
    by linarith
  then show ?thesis
  proof cases
    case 1
    with inv have e: "touchState e = CONFIRM_TOUCH_DOWN_STATE" "touchEventStartTime e = of_nat t0"
      "c = 0"
      by (simp_all add: steadyInv_def)
    from clock have "((of_nat (t0 + Suc n) :: 32 word) < of_nat t0 + TOUCH_DEBOUNCE_PERIOD)
        = (t0 + Suc n < t0 + 30)"
      by (intro before_consts) simp_all
    with 1 e show ?thesis
      by (simp add: steadyInv_def tdefs)
  next
    case 2
    with inv have e: "touchState e = CONFIRM_TOUCH_DOWN_STATE" "touchEventStartTime e = of_nat t0"
      "c = 0"
      by (simp_all add: steadyInv_def)
    from clock have "((of_nat (t0 + Suc n) :: 32 word) < of_nat t0 + TOUCH_DEBOUNCE_PERIOD)
        = (t0 + Suc n < t0 + 30)"
      by (intro before_consts) simp_all
    with 2 e show ?thesis
      by (cases xy) (simp add: steadyInv_def tdefs)
  next
    case 3
    with inv have e: "touchState e = WAITING_FOR_TOUCH_UP_STATE"
      "touchEventStartTime e = of_nat (t0 + 30)" "c = 0"
      by (simp_all add: steadyInv_def)
    from clock 3 have "((of_nat (t0 + Suc n) :: 32 word) < of_nat (t0 + 30) + TOUCH_AUTO_REPEAT_DELAY)
        = (t0 + Suc n < t0 + 30 + 800)"
      by (intro before_consts) simp_all
    with 3 e show ?thesis
      by (simp add: steadyInv_def tdefs)
  next
    case 4
    with inv have e: "touchState e = WAITING_FOR_TOUCH_UP_STATE"
      "touchEventStartTime e = of_nat (t0 + 30)" "c = 0"
      by (simp_all add: steadyInv_def)
    from clock 4 have "((of_nat (t0 + Suc n) :: 32 word) < of_nat (t0 + 30) + TOUCH_AUTO_REPEAT_DELAY)
        = (t0 + Suc n < t0 + 30 + 800)"
      by (intro before_consts) simp_all
    with 4 e show ?thesis
      by (simp add: steadyInv_def tdefs)
  next
    case 5
    define m where "m = n - 830"
    define q where "q = m div 120"
    from 5 have n: "Suc n - 830 = Suc m" "n = m + 830" by (simp_all add: m_def)
    have "m = 120 * q + m mod 120" by (simp add: q_def)
    moreover have "m mod 120 < 120" by simp
    ultimately have qm: "120 * q \<le> m" "m < 120 * q + 120" by linarith+
    from 5 inv have e: "touchState e = WAITING_FOR_TOUCH_UP_AFTER_AUTO_REPEAT_STATE"
      "touchEventStartTime e = of_nat (t0 + 830 + 120 * q)" "c = q + 1"
      by (simp_all add: steadyInv_def q_def m_def)
    have big: "830 \<le> Suc n" using 5 by simp
    from clock qm n have cmp: "((of_nat (t0 + Suc n) :: 32 word) <
        of_nat (t0 + 830 + 120 * q) + TOUCH_AUTO_REPEAT_RATE)
        = (t0 + Suc n < t0 + 830 + 120 * q + 120)"
      by (intro before_consts) simp_all
    show ?thesis
    proof (cases "t0 + Suc n < t0 + 830 + 120 * q + 120")
      case False
      then have "120 * q + 120 \<le> Suc m" by (simp add: n)
      with qm have sm: "Suc m = 120 * (q + 1)" by simp
      then have "Suc m div 120 = q + 1" by simp
      then have d: "(Suc n - 830) div 120 = q + 1" by (simp only: n(1))
      have now': "t0 + Suc n = t0 + 830 + 120 * (q + 1)" using sm n by linarith
      have step: "getTouchEvents (of_nat (t0 + Suc n)) (Some xy) e =
          e\<lparr> touchEventType := TOUCH_NO_EVENT, touchEventStartTime := of_nat (t0 + Suc n),
             touchEventX := recordedTouchX e, touchEventY := recordedTouchY e,
             touchEventType := TOUCH_REPEAT_EVENT \<rparr>"
        using False e(1) cmp by (simp add: tdefs e(2))
      show ?thesis
        unfolding step
      proof (rule steadyInv_late [OF big])
        show "touchState (e\<lparr> touchEventType := TOUCH_NO_EVENT,
            touchEventStartTime := of_nat (t0 + Suc n),
            touchEventX := recordedTouchX e, touchEventY := recordedTouchY e,
            touchEventType := TOUCH_REPEAT_EVENT \<rparr>)
            = WAITING_FOR_TOUCH_UP_AFTER_AUTO_REPEAT_STATE"
          by (simp add: e(1))
        show "touchEventStartTime (e\<lparr> touchEventType := TOUCH_NO_EVENT,
            touchEventStartTime := of_nat (t0 + Suc n),
            touchEventX := recordedTouchX e, touchEventY := recordedTouchY e,
            touchEventType := TOUCH_REPEAT_EVENT \<rparr>)
            = of_nat (t0 + 830 + 120 * ((Suc n - 830) div 120))"
          unfolding d using now' by simp
        show "c + (if touchEventType (e\<lparr> touchEventType := TOUCH_NO_EVENT,
            touchEventStartTime := of_nat (t0 + Suc n),
            touchEventX := recordedTouchX e, touchEventY := recordedTouchY e,
            touchEventType := TOUCH_REPEAT_EVENT \<rparr>) = TOUCH_REPEAT_EVENT then 1 else 0)
            = (Suc n - 830) div 120 + 1"
          unfolding d by (simp add: e(3))
      qed
    next
      case True
      then have "Suc m < 120 * q + 120" by (simp add: n)
      moreover from qm have "120 * q \<le> Suc m" by linarith
      ultimately have "Suc m div 120 = q"
        by (intro div_nat_eqI) simp_all
      then have d: "(Suc n - 830) div 120 = q" by (simp only: n(1))
      have step: "getTouchEvents (of_nat (t0 + Suc n)) (Some xy) e =
          e\<lparr> touchEventType := TOUCH_NO_EVENT \<rparr>"
        using True e(1) cmp by (simp add: tdefs e(2))
      show ?thesis
        unfolding step
      proof (rule steadyInv_late [OF big])
        show "touchState (e\<lparr> touchEventType := TOUCH_NO_EVENT \<rparr>)
            = WAITING_FOR_TOUCH_UP_AFTER_AUTO_REPEAT_STATE"
          by (simp add: e(1))
        show "touchEventStartTime (e\<lparr> touchEventType := TOUCH_NO_EVENT \<rparr>)
            = of_nat (t0 + 830 + 120 * ((Suc n - 830) div 120))"
          unfolding d by (simp add: e(2))
        show "c + (if touchEventType (e\<lparr> touchEventType := TOUCH_NO_EVENT \<rparr>) = TOUCH_REPEAT_EVENT
            then 1 else 0) = (Suc n - 830) div 120 + 1"
          unfolding d by (simp add: e(3))
      qed
    qed
  qed
qed

lemma steady_run:
  assumes idle: "touchState s = WAITING_FOR_TOUCH_DOWN_STATE"
  shows "t0 + n + 800 < 4294967296 \<Longrightarrow>
     steadyInv t0 n (pollEnd s (steadyPolls t0 n f))
     (eventCount TOUCH_REPEAT_EVENT (pollAll s (steadyPolls t0 n f)))"
proof (induction n)
  case 0
  from idle show ?case
    by (cases "f 0") (simp add: steadyPolls_0 pollEnd_Cons pollEnd_Nil steadyInv_def
        tdefs eventCount_def)
next
  case (Suc n)
  from Suc.prems have "t0 + n + 800 < 4294967296" by simp
  from steadyInv_step [OF Suc.IH [OF this], of "f (Suc n)"] Suc.prems show ?case
    by (simp only: steadyPolls_Suc pollAll_snoc pollEnd_snoc eventCount_snoc add_Suc_right)
qed

text \<open>
  Claim C3, amended. A touch polled every millisecond from clock \<open>t0\<close> and held \<open>d\<close> ms
  beyond the poll that confirms it (the debounce period after the first touched poll),
  with the clock not within 800 ms of its rollover, emits no AutoRepeat event when \<open>d\<close>
  is below the auto-repeat delay, and otherwise \<open>(d - delay) div rate + 1\<close>: the first
  AutoRepeat comes when the delay elapses, one more than the formula of the claim. The
  three timing constants are 30, 800 and 120.
\<close>

theorem C3_auto_repeat_count:
  assumes idle: "touchState s = WAITING_FOR_TOUCH_DOWN_STATE"
    and clock: "t0 + unat TOUCH_DEBOUNCE_PERIOD + d + unat TOUCH_AUTO_REPEAT_DELAY < 2 ^ 32"
  shows "eventCount TOUCH_REPEAT_EVENT
        (pollAll s (steadyPolls t0 (unat TOUCH_DEBOUNCE_PERIOD + d) f)) =
      (if d < unat TOUCH_AUTO_REPEAT_DELAY then 0
       else (d - unat TOUCH_AUTO_REPEAT_DELAY) div unat TOUCH_AUTO_REPEAT_RATE + 1) \<and>
    TOUCH_DEBOUNCE_PERIOD = 30 \<and> TOUCH_AUTO_REPEAT_DELAY = 800 \<and> TOUCH_AUTO_REPEAT_RATE = 120"
proof -
  from clock have "t0 + (30 + d) + 800 < 4294967296" by (simp add: tconsts)
  from steady_run [OF idle this, of f]
  have "eventCount TOUCH_REPEAT_EVENT (pollAll s (steadyPolls t0 (30 + d) f)) =
      (if d < 800 then 0 else (d - 800) div 120 + 1)"
    by (auto simp: steadyInv_def split: if_splits)
  then show ?thesis by (simp add: tconsts)
qed

theorem C3_auto_repeat_count_witness:
  "touchState touch_begin = WAITING_FOR_TOUCH_DOWN_STATE \<and>
   (0 :: nat) + unat TOUCH_DEBOUNCE_PERIOD + 920 + unat TOUCH_AUTO_REPEAT_DELAY < 2 ^ 32 \<and>
   eventCount TOUCH_REPEAT_EVENT
     (pollAll touch_begin (steadyPolls 0 (unat TOUCH_DEBOUNCE_PERIOD + 920) (\<lambda>k. (100, 50)))) = 2"
proof -
  have idle: "touchState touch_begin = WAITING_FOR_TOUCH_DOWN_STATE" by (simp add: touch_begin_def)
  have clock: "(0 :: nat) + unat TOUCH_DEBOUNCE_PERIOD + 920 + unat TOUCH_AUTO_REPEAT_DELAY < 2 ^ 32"
    by (simp add: tconsts)
  from C3_auto_repeat_count [OF idle clock, of "\<lambda>k. (100, 50)"] idle clock
  show ?thesis by (simp add: tconsts)
qed

text \<open>
  Claim C3 as stated fails: a touch polled every 10 ms from clock 0 to clock 830 is
  held 830 ms from its first sample and 800 ms from its Pressed event; it has emitted
  one AutoRepeat, where the claim's formula gives 0 for either duration.
\<close>

theorem C3_formula_counterexample:
  "map fst (tenMsPolls 84) = map (\<lambda>k. of_nat (10 * k)) [0..<84] \<and>
   eventCount TOUCH_PUSHED_EVENT (pollAll touch_begin (tenMsPolls 84)) = 1 \<and>
   eventCount TOUCH_REPEAT_EVENT (pollAll touch_begin (tenMsPolls 84)) = 1 \<and>
   (830 - unat TOUCH_AUTO_REPEAT_DELAY) div unat TOUCH_AUTO_REPEAT_RATE = 0 \<and>
   (800 - unat TOUCH_AUTO_REPEAT_DELAY) div unat TOUCH_AUTO_REPEAT_RATE = 0"
  by code_simp

text \<open>
  Near the rollover the sum in the source's comparison wraps before the clock does and
  the period counts as elapsed at once: this touch, held 960 ms after its Pressed event,
  auto-repeats at every poll of the last 50 ms, six times in all.
\<close>

lemma rollover_burst:
  "eventCount TOUCH_PUSHED_EVENT (pollAll touch_begin rolloverPolls) = 1 \<and>
   eventCount TOUCH_REPEAT_EVENT (pollAll touch_begin rolloverPolls) = 6"
  by code_simp

section \<open>Properties of the buttons\<close>









section \<open>Properties of the menu layout\<close>






























section \<open>Properties of the menu engine\<close>
















lemma afterBackClick_table [simp]:
  "currentMenuTable (afterBackClick poll st) = currentMenuTable st"
  by (simp add: afterBackClick_def)











end
